theory Spec2Isabelle
  imports Main "HOL-Library.Sublist"
begin

section \<open>Text\<close>

text \<open>
  A Python \<^verbatim>\<open>str\<close> is a sequence of Unicode code points, so it is modelled as a list of
  natural numbers. \<open>ustr\<close> reads an ASCII literal; code points beyond ASCII (the accented
  letters of the Spanish keywords) are written as numbers next to it.
\<close>

type_synonym pystr = "nat list"

definition ustr :: "string \<Rightarrow> pystr" where
  "ustr s = map of_char s"

text \<open>
  \<^verbatim>\<open>str.lower()\<close> works code point by code point (but for the Greek capital sigma,
  whose lower case depends on its position in the word). The table below covers Basic
  Latin and the Latin-1 Supplement, and the code points outside them whose lower case lies
  inside (U+0130, U+0178, U+1E9E, U+212A, U+212B); every other code point is left as it
  is.
\<close>

definition lower_cp :: "nat \<Rightarrow> pystr" where
  "lower_cp c =
     (if 65 \<le> c \<and> c \<le> 90 then [c + 32]
      else if 192 \<le> c \<and> c \<le> 222 \<and> c \<noteq> 215 then [c + 32]
      else if c = 304 then [105, 775]
      else if c = 376 then [255]
      else if c = 7838 then [223]
      else if c = 8490 then [107]
      else if c = 8491 then [229]
      else [c])"

definition py_lower :: "pystr \<Rightarrow> pystr" where
  "py_lower s = concat (map lower_cp s)"

text \<open>\<^verbatim>\<open>kw in s\<close> on strings: \<open>kw\<close> occurs in \<open>s\<close> as a contiguous run.\<close>

definition py_in :: "pystr \<Rightarrow> pystr \<Rightarrow> bool" where
  "py_in kw s = sublist kw s"

section \<open>Emergency detection\<close>

datatype confidence = High | Medium

text \<open>
  \<^verbatim>\<open>EmergencyDetection\<close>. The class is not declared in the sources; the fields that the
  last \<^verbatim>\<open>return\<close> of \<^verbatim>\<open>detect_emergency\<close> leaves out take the defaults \<open>None\<close>,
  \<open>[]\<close> and \<open>False\<close>.
\<close>

record EmergencyDetection =
  is_potential_emergency :: bool
  confidence :: "confidence option"
  matched_keywords :: "pystr list"
  requires_confirmation :: bool

definition EMERGENCY_KEYWORDS_high :: "pystr list" where
  "EMERGENCY_KEYWORDS_high =
    [ustr ''veneno'',
     ustr ''envenenado'',
     ustr ''envenenamiento'',
     ustr ''atropellado'',
     ustr ''atropell'' @ [243],
     ustr ''carro'',
     ustr ''no respira'',
     ustr ''no puede respirar'',
     ustr ''asfixia'',
     ustr ''convulsi'' @ [243] @ ustr ''n'',
     ustr ''convulsionando'',
     ustr ''convulsiones'',
     ustr ''sangre'',
     ustr ''sangrando'',
     ustr ''hemorragia'',
     ustr ''no se mueve'',
     ustr ''inconsciente'',
     ustr ''desmayado'',
     ustr ''parto'',
     ustr ''dando a luz'',
     ustr ''no puede parir'']"

definition EMERGENCY_KEYWORDS_medium :: "pystr list" where
  "EMERGENCY_KEYWORDS_medium =
    [ustr ''urgente'',
     ustr ''emergencia'',
     ustr ''ayuda'',
     ustr ''muy mal'',
     ustr ''grave'',
     ustr ''cr'' @ [237] @ ustr ''tico'',
     ustr ''vomitando sangre'',
     ustr ''diarrea con sangre'',
     ustr ''hinchado'',
     ustr ''inflamado'']"

definition detect_emergency :: "pystr \<Rightarrow> EmergencyDetection" where
  "detect_emergency message =
     (let message_lower = py_lower message;
          high_matches = filter (\<lambda>kw. py_in kw message_lower) EMERGENCY_KEYWORDS_high;
          medium_matches = filter (\<lambda>kw. py_in kw message_lower) EMERGENCY_KEYWORDS_medium
      in if high_matches \<noteq> [] then
           \<lparr>is_potential_emergency = True, confidence = Some High,
            matched_keywords = high_matches, requires_confirmation = True\<rparr>
         else if 2 \<le> length medium_matches \<or> (medium_matches \<noteq> [] \<and> py_in (ustr ''!'') message) then
           \<lparr>is_potential_emergency = True, confidence = Some Medium,
            matched_keywords = medium_matches, requires_confirmation = True\<rparr>
         else
           \<lparr>is_potential_emergency = False, confidence = None,
            matched_keywords = [], requires_confirmation = False\<rparr>)"

section \<open>Time\<close>

text \<open>
  A \<^verbatim>\<open>datetime\<close> is an integer count of microseconds (the resolution of Python's
  \<^verbatim>\<open>datetime\<close>) since the epoch, a \<^verbatim>\<open>timedelta\<close> a difference of two, a \<^verbatim>\<open>date\<close> a
  count of days since 1970-01-01 (a Thursday) and a \<^verbatim>\<open>time\<close> of day a count of
  microseconds since midnight.
\<close>

type_synonym datetime = int
type_synonym timedelta = int
type_synonym date = int
type_synonym time_of_day = int

definition minute :: timedelta where
  "minute = 60000000"

definition timedelta_minutes :: "int \<Rightarrow> timedelta" where
  "timedelta_minutes n = n * minute"

definition timedelta_hours :: "int \<Rightarrow> timedelta" where
  "timedelta_hours n = n * (60 * minute)"

definition combine :: "date \<Rightarrow> time_of_day \<Rightarrow> datetime" where
  "combine day t = day * (1440 * minute) + t"

definition date_of :: "datetime \<Rightarrow> date" where
  "date_of t = t div (1440 * minute)"

text \<open>\<^verbatim>\<open>date.weekday()\<close>: Monday is 0 and Sunday is 6.\<close>

definition weekday :: "date \<Rightarrow> nat" where
  "weekday day = nat ((day + 3) mod 7)"

section \<open>Data model\<close>

type_synonym uuid = nat

datatype error = SlotNoLongerAvailable | InvalidTransition | NotFound | IndexError

datatype appointment_status = Scheduled | Confirmed | Completed | Cancelled | NoShow | Emergency

datatype priority = PriorityNormal | PriorityEmergency

datatype source = Whatsapp | Manual

datatype event_status = Active | Acknowledged | Resolved | FalseAlarm

datatype follow_up_status = Pending | Sent | Responded | Escalated | FollowUpCancelled | Failed

datatype conv_state =
    IDLE | GREETING | INTENT_DETECTION | ASK_REASON | OFFER_SLOTS | AWAIT_SELECTION
  | CONFIRM_BOOKING | CONFIRM_EMERGENCY | ESCALATE | COLLECT_STATUS | COMPLETED
  | REMINDER | CLOSED

record TimeSlot =
  start :: datetime
  end' :: datetime

record Appointment =
  apt_id :: uuid
  apt_clinic_id :: uuid
  apt_client_id :: "uuid option"
  apt_pet_id :: "uuid option"
  start_time :: datetime
  end_time :: datetime
  duration_minutes :: int
  apt_reason :: pystr
  apt_status :: appointment_status
  apt_source :: source
  apt_conversation_id :: "uuid option"
  apt_priority :: priority
  apt_emergency_id :: "uuid option"
  apt_created_at :: datetime

record Conversation =
  conv_id :: uuid
  conv_clinic_id :: uuid
  client_phone :: pystr
  state :: conv_state
  state_data :: "(pystr \<times> pystr) list"
  last_state_change :: "datetime option"
  timeout_at :: "datetime option"
  extracted_client_name :: "pystr option"
  extracted_pet_name :: "pystr option"
  extracted_pet_species :: "pystr option"
  emergency_description :: pystr
  emergency_keywords :: "pystr list"
  conv_emergency_id :: "uuid option"

record Client =
  client_id :: uuid
  client_clinic_id :: uuid
  phone :: pystr
  client_name :: "pystr option"
  false_emergency_count :: int

record Pet =
  pet_id :: uuid
  pet_client_id :: uuid
  pet_name :: pystr
  pet_species :: "pystr option"

record BusinessHours =
  is_open :: bool
  open_time :: time_of_day
  close_time :: time_of_day

text \<open>\<open>business_hours\<close> is the dictionary from weekday to hours, kept as its items.\<close>

record Clinic =
  clinic_id :: uuid
  business_hours :: "(nat \<times> BusinessHours) list"

record EscalationContact =
  contact_clinic_id :: uuid
  contact_phone :: pystr

record EmergencyEvent =
  ev_id :: uuid
  ev_clinic_id :: uuid
  ev_conversation_id :: uuid
  ev_client_phone :: pystr
  description :: pystr
  keywords_detected :: "pystr list"
  ev_status :: event_status
  ev_created_at :: datetime

record FollowUp =
  fu_id :: uuid
  fu_appointment_id :: uuid
  fu_clinic_id :: uuid
  fu_client_id :: "uuid option"
  fu_pet_id :: "uuid option"
  message_template :: pystr
  escalation_keywords :: "pystr list"
  scheduled_at :: datetime
  fu_status :: follow_up_status
  sequence_number :: int
  fu_created_at :: datetime

text \<open>
  The store behind \<^verbatim>\<open>db\<close>: one list of rows per table, in insertion order. \<open>sent_alerts\<close>
  records the calls of \<^verbatim>\<open>send_emergency_alert\<close> (phone, message), \<open>action_log\<close> those of
  \<^verbatim>\<open>log_conversation_action\<close>, and \<open>next_uuid\<close> is the supply that \<^verbatim>\<open>uuid4()\<close> draws fresh
  identifiers from. A row handed to \<^verbatim>\<open>db.add\<close> is appended to its table.
\<close>

record db =
  conversations :: "Conversation list"
  clients :: "Client list"
  pets :: "Pet list"
  clinics :: "Clinic list"
  escalation_contacts :: "EscalationContact list"
  appointments :: "Appointment list"
  emergency_events :: "EmergencyEvent list"
  follow_ups :: "FollowUp list"
  sent_alerts :: "(pystr \<times> pystr) list"
  action_log :: "(uuid \<times> pystr \<times> uuid) list"
  next_uuid :: uuid

definition uuid4 :: "db \<Rightarrow> uuid \<times> db" where
  "uuid4 d = (next_uuid d, d\<lparr>next_uuid := Suc (next_uuid d)\<rparr>)"

section \<open>Repository accessors\<close>

text \<open>
  Modelled from the spec: the accessors \<^verbatim>\<open>get_conversation\<close>, \<^verbatim>\<open>get_clinic\<close>,
  \<^verbatim>\<open>get_appointment\<close>, \<^verbatim>\<open>get_client_by_phone\<close>, \<^verbatim>\<open>get_escalation_contacts\<close> and
  \<^verbatim>\<open>get_appointments_for_date\<close> are called by the sources but not defined in them. The
  spec describes them as a repository interface the core reads through; each is the lookup
  its name says, and a row that does not exist is \<open>None\<close>, which the calling operation
  turns into the error \<open>NotFound\<close> before it writes anything.
\<close>

definition get_conversation :: "db \<Rightarrow> uuid \<Rightarrow> Conversation option" where
  "get_conversation d conversation_id = find (\<lambda>c. conv_id c = conversation_id) (conversations d)"

definition get_clinic :: "db \<Rightarrow> uuid \<Rightarrow> Clinic option" where
  "get_clinic d cid = find (\<lambda>c. clinic_id c = cid) (clinics d)"

definition get_appointment :: "db \<Rightarrow> uuid \<Rightarrow> Appointment option" where
  "get_appointment d appointment_id = find (\<lambda>a. apt_id a = appointment_id) (appointments d)"

definition get_client_by_phone :: "db \<Rightarrow> pystr \<Rightarrow> Client option" where
  "get_client_by_phone d p = find (\<lambda>c. phone c = p) (clients d)"

definition get_escalation_contacts :: "db \<Rightarrow> uuid \<Rightarrow> EscalationContact list" where
  "get_escalation_contacts d cid = filter (\<lambda>c. contact_clinic_id c = cid) (escalation_contacts d)"

definition get_appointments_for_date :: "db \<Rightarrow> uuid \<Rightarrow> date \<Rightarrow> Appointment list" where
  "get_appointments_for_date d cid day =
     filter (\<lambda>a. apt_clinic_id a = cid \<and> date_of (start_time a) = day) (appointments d)"

section \<open>Scheduling: slot generation\<close>

text \<open>
  The \<^verbatim>\<open>while\<close> loop of \<^verbatim>\<open>get_available_slots\<close>: from \<open>current\<close>, one slot every 30
  minutes as long as the slot ends by \<open>slot_end\<close>; the list is in the order the loop
  appends.
\<close>

function all_slots_from :: "datetime \<Rightarrow> datetime \<Rightarrow> int \<Rightarrow> TimeSlot list" where
  "all_slots_from current slot_end duration =
     (if current + timedelta_minutes duration \<le> slot_end
      then \<lparr>start = current, end' = current + timedelta_minutes duration\<rparr>
             # all_slots_from (current + timedelta_minutes 30) slot_end duration
      else [])"
  by pat_completeness auto
termination
  by (relation "measure (\<lambda>(current, slot_end, duration).
        nat (slot_end - timedelta_minutes duration - current + 1))")
     (auto simp: timedelta_minutes_def minute_def)

definition has_conflict :: "Appointment list \<Rightarrow> TimeSlot \<Rightarrow> bool" where
  "has_conflict existing slot =
     (let buffer_start = start slot - timedelta_minutes 5;
          buffer_end = end' slot + timedelta_minutes 5
      in list_ex (\<lambda>apt. start_time apt < buffer_end \<and> end_time apt > buffer_start)
           (filter (\<lambda>apt. apt_status apt \<noteq> Cancelled) existing))"

definition get_available_slots :: "db \<Rightarrow> uuid \<Rightarrow> date \<Rightarrow> int \<Rightarrow> error + TimeSlot list" where
  "get_available_slots d cid day duration =
     (case get_clinic d cid of
        None \<Rightarrow> Inl NotFound
      | Some clinic \<Rightarrow>
          (case map_of (business_hours clinic) (weekday day) of
             None \<Rightarrow> Inr []
           | Some hours \<Rightarrow>
               if \<not> is_open hours then Inr []
               else
                 let slot_start = combine day (open_time hours);
                     slot_end = combine day (close_time hours);
                     all_slots = all_slots_from slot_start slot_end duration;
                     existing = get_appointments_for_date d cid day;
                     available = filter (\<lambda>slot. \<not> has_conflict existing slot) all_slots
                 in Inr (take 10 available)))"

declare all_slots_from.simps [simp del]

section \<open>Scheduling: booking\<close>






section \<open>Scheduling: slot selection\<close>

text \<open>\<^verbatim>\<open>str.strip()\<close> removes the white space of Unicode at both ends.\<close>

definition is_space :: "nat \<Rightarrow> bool" where
  "is_space c =
     ((9 \<le> c \<and> c \<le> 13) \<or> (28 \<le> c \<and> c \<le> 32) \<or> c = 133 \<or> c = 160 \<or> c = 5760
      \<or> (8192 \<le> c \<and> c \<le> 8202) \<or> c = 8232 \<or> c = 8233 \<or> c = 8239 \<or> c = 8287
      \<or> c = 12288)"

definition py_strip :: "pystr \<Rightarrow> pystr" where
  "py_strip s = rev (dropWhile is_space (rev (dropWhile is_space s)))"

text \<open>
  The three rows of \<^verbatim>\<open>number_patterns\<close>. \<^verbatim>\<open>re.search\<close> with an alternation of literals
  asks whether one of them occurs; \<^verbatim>\<open>^1$\<close> holds of the string \<^verbatim>\<open>1\<close>, with or without
  one final line feed.
\<close>

definition number_patterns :: "((pystr \<Rightarrow> bool) \<times> nat) list" where
  "number_patterns =
    [(\<lambda>m. m = ustr ''1'' \<or> m = ustr ''1'' @ [10] \<or> py_in (ustr ''primera'') m
           \<or> py_in (ustr ''opci'' @ [243] @ ustr ''n 1'') m \<or> py_in (ustr ''uno'') m, 0),
     (\<lambda>m. m = ustr ''2'' \<or> m = ustr ''2'' @ [10] \<or> py_in (ustr ''segunda'') m
           \<or> py_in (ustr ''opci'' @ [243] @ ustr ''n 2'') m \<or> py_in (ustr ''dos'') m, 1),
     (\<lambda>m. m = ustr ''3'' \<or> m = ustr ''3'' @ [10] \<or> py_in (ustr ''tercera'') m
           \<or> py_in (ustr ''opci'' @ [243] @ ustr ''n 3'') m \<or> py_in (ustr ''tres'') m, 2)]"

text \<open>The first loop: a row that matches selects only when its index is in range.\<close>

fun number_selection ::
    "((pystr \<Rightarrow> bool) \<times> nat) list \<Rightarrow> pystr \<Rightarrow> TimeSlot list \<Rightarrow> TimeSlot option" where
  "number_selection [] message offered_slots = None"
| "number_selection ((pattern, index) # rest) message offered_slots =
     (if pattern message \<and> index < length offered_slots
      then Some (offered_slots ! index)
      else number_selection rest message offered_slots)"

text \<open>
  The second loop. Its patterns end in an ellipsis in the source, and the extractors
  \<^verbatim>\<open>extract_time\<close>, \<^verbatim>\<open>extract_relative_date\<close> and the test \<^verbatim>\<open>slot_matches\<close> are not
  defined there, so the rows (a search that yields a match or nothing, and the extractor of
  its target) and \<open>slot_matches\<close> are parameters.
\<close>

fun time_selection ::
    "((pystr \<Rightarrow> 'm option) \<times> ('m \<Rightarrow> 't)) list \<Rightarrow> (TimeSlot \<Rightarrow> 't \<Rightarrow> bool) \<Rightarrow> pystr
      \<Rightarrow> TimeSlot list \<Rightarrow> TimeSlot option" where
  "time_selection [] slot_matches message offered_slots = None"
| "time_selection ((search, extractor) # rest) slot_matches message offered_slots =
     (case search message of
        None \<Rightarrow> time_selection rest slot_matches message offered_slots
      | Some match \<Rightarrow>
          (case find (\<lambda>slot. slot_matches slot (extractor match)) offered_slots of
             Some slot \<Rightarrow> Some slot
           | None \<Rightarrow> time_selection rest slot_matches message offered_slots))"

definition parse_slot_selection ::
    "((pystr \<Rightarrow> 'm option) \<times> ('m \<Rightarrow> 't)) list \<Rightarrow> (TimeSlot \<Rightarrow> 't \<Rightarrow> bool) \<Rightarrow> pystr
      \<Rightarrow> TimeSlot list \<Rightarrow> TimeSlot option" where
  "parse_slot_selection time_patterns slot_matches user_message offered_slots =
     (let message = py_strip (py_lower user_message)
      in case number_selection number_patterns message offered_slots of
           Some slot \<Rightarrow> Some slot
         | None \<Rightarrow> time_selection time_patterns slot_matches message offered_slots)"

section \<open>Emergency escalation\<close>

datatype action_kind = Denied | RedirectToScheduling | EscalatedAction

record EmergencyAction =
  action :: action_kind
  action_emergency_id :: "uuid option"
  action_message :: pystr

text \<open>\<^verbatim>\<open>sep.join(xs)\<close>.\<close>

fun py_join :: "pystr \<Rightarrow> pystr list \<Rightarrow> pystr" where
  "py_join sep [] = []"
| "py_join sep [x] = x"
| "py_join sep (x # y # ys) = x @ sep @ py_join sep (y # ys)"

text \<open>
  \<^verbatim>\<open>format_emergency_alert\<close>: the alert text for the veterinarian, with the client's phone,
  the species (or \<^verbatim>\<open>Mascota\<close> when it is missing or empty), the first 100 code points of
  the description and the first three keywords.
\<close>

definition format_emergency_alert :: "EmergencyEvent \<Rightarrow> Conversation \<Rightarrow> pystr" where
  "format_emergency_alert emergency conversation =
     [128680] @ ustr '' EMERGENCIA'' @ [10, 10, 128222] @ ustr '' ''
     @ client_phone conversation
     @ [10, 128062] @ ustr '' ''
     @ (case extracted_pet_species conversation of
          None \<Rightarrow> ustr ''Mascota''
        | Some s \<Rightarrow> if s = [] then ustr ''Mascota'' else s)
     @ [10, 9888, 65039] @ ustr '' ''
     @ take 100 (description emergency)
     @ [10, 10] @ ustr ''Palabras clave: ''
     @ py_join (ustr '', '') (take 3 (keywords_detected emergency))
     @ [10, 10] @ ustr ''Responde a este mensaje para confirmar recepci'' @ [243] @ ustr ''n.''"

text \<open>
  Modelled from the spec: \<^verbatim>\<open>send_emergency_alert\<close> is not defined in the sources. The spec
  has escalation send "one alert per contact"; a call is recorded in \<open>sent_alerts\<close>.
\<close>

definition send_emergency_alert :: "db \<Rightarrow> pystr \<Rightarrow> pystr \<Rightarrow> db" where
  "send_emergency_alert d p message = d\<lparr>sent_alerts := sent_alerts d @ [(p, message)]\<rparr>"

text \<open>
  \<^verbatim>\<open>create_emergency_slot\<close>: a 60-minute appointment starting now, added to the table;
  no other row is read or written. The fields the source does not pass are \<open>None\<close>.
\<close>

definition create_emergency_slot :: "datetime \<Rightarrow> db \<Rightarrow> uuid \<Rightarrow> uuid \<Rightarrow> Appointment \<times> db" where
  "create_emergency_slot now d cid emergency_id =
     (let (new_id, d1) = uuid4 d;
          appointment =
            \<lparr>apt_id = new_id,
             apt_clinic_id = cid,
             apt_client_id = None,
             apt_pet_id = None,
             start_time = now,
             end_time = now + timedelta_minutes 60,
             duration_minutes = 60,
             apt_reason = ustr ''EMERGENCIA'',
             apt_status = Emergency,
             apt_source = Whatsapp,
             apt_conversation_id = None,
             apt_priority = PriorityEmergency,
             apt_emergency_id = Some emergency_id,
             apt_created_at = now\<rparr>
      in (appointment, d1\<lparr>appointments := appointments d1 @ [appointment]\<rparr>))"

text \<open>
  \<^verbatim>\<open>execute_emergency_escalation\<close>. The event is built and added without any look at
  the events already stored. The \<^verbatim>\<open>EmergencyAlert\<close> object the loop builds is never
  handed to \<^verbatim>\<open>db.add\<close>, so the loop leaves only its sends. \<open>client_response\<close> stands for
  \<^verbatim>\<open>format_emergency_client_response\<close>, which the sources do not define.
\<close>

definition execute_emergency_escalation ::
    "datetime \<Rightarrow> (Clinic \<Rightarrow> pystr) \<Rightarrow> db \<Rightarrow> uuid \<Rightarrow> (error + EmergencyAction) \<times> db" where
  "execute_emergency_escalation now client_response d conversation_id =
     (case get_conversation d conversation_id of
        None \<Rightarrow> (Inl NotFound, d)
      | Some conversation \<Rightarrow>
          (case get_clinic d (conv_clinic_id conversation) of
             None \<Rightarrow> (Inl NotFound, d)
           | Some clinic \<Rightarrow>
               (let (new_id, d1) = uuid4 d;
                    emergency =
                      \<lparr>ev_id = new_id,
                       ev_clinic_id = conv_clinic_id conversation,
                       ev_conversation_id = conversation_id,
                       ev_client_phone = client_phone conversation,
                       description = emergency_description conversation,
                       keywords_detected = emergency_keywords conversation,
                       ev_status = Active,
                       ev_created_at = now\<rparr>;
                    d2 = d1\<lparr>emergency_events := emergency_events d1 @ [emergency]\<rparr>;
                    (priority_slot, d3) =
                      create_emergency_slot now d2 (conv_clinic_id conversation) (ev_id emergency);
                    contacts = get_escalation_contacts d3 (conv_clinic_id conversation);
                    d4 = foldl (\<lambda>acc contact.
                                  send_emergency_alert acc (contact_phone contact)
                                    (format_emergency_alert emergency conversation))
                           d3 contacts;
                    d5 = d4\<lparr>conversations :=
                              map (\<lambda>c. if conv_id c = conversation_id
                                        then c\<lparr>state := ESCALATE,
                                               conv_emergency_id := Some (ev_id emergency)\<rparr>
                                        else c)
                                (conversations d4)\<rparr>
                in (Inr \<lparr>action = EscalatedAction,
                         action_emergency_id = Some (ev_id emergency),
                         action_message = client_response clinic\<rparr>, d5))))"

definition denied_message :: pystr where
  "denied_message =
     ustr ''Lo siento, el acceso a emergencias est'' @ [225] @ ustr '' restringido para este n''
     @ [250] @ ustr ''mero. Por favor llama directamente al consultorio.''"

definition redirect_message :: pystr where
  "redirect_message =
     ustr ''Entendido. '' @ [191] @ ustr ''Te gustar'' @ [237]
     @ ustr ''a agendar una cita regular para revisi'' @ [243] @ ustr ''n?''"

definition handle_emergency_confirmation ::
    "datetime \<Rightarrow> (Clinic \<Rightarrow> pystr) \<Rightarrow> db \<Rightarrow> uuid \<Rightarrow> bool \<Rightarrow> (error + EmergencyAction) \<times> db" where
  "handle_emergency_confirmation now client_response d conversation_id user_confirmed =
     (case get_conversation d conversation_id of
        None \<Rightarrow> (Inl NotFound, d)
      | Some conversation \<Rightarrow>
          (let client = get_client_by_phone d (client_phone conversation)
           in if (case client of None \<Rightarrow> False | Some c \<Rightarrow> 1 \<le> false_emergency_count c)
              then (Inr \<lparr>action = Denied, action_emergency_id = None,
                         action_message = denied_message\<rparr>, d)
              else if \<not> user_confirmed
              then (Inr \<lparr>action = RedirectToScheduling, action_emergency_id = None,
                         action_message = redirect_message\<rparr>,
                    (case client of
                       None \<Rightarrow> d
                     | Some c \<Rightarrow>
                         d\<lparr>clients :=
                             map (\<lambda>x. if client_id x = client_id c
                                       then x\<lparr>false_emergency_count := false_emergency_count x + 1\<rparr>
                                       else x)
                               (clients d)\<rparr>))
              else execute_emergency_escalation now client_response d conversation_id))"


section \<open>Follow-up scheduling\<close>

record protocol =
  schedule :: "int list"
  messages :: "pystr list"
  protocol_escalation_keywords :: "pystr list"

definition surgery_protocol :: protocol where
  "surgery_protocol = \<lparr>
     schedule = [24, 48, 72, 168],
     messages = [
       ustr ''Hola, '' @ [191] @ ustr ''c'' @ [243] @ ustr ''mo sigue {pet_name} despu'' @ [233] @ ustr ''s de la cirug'' @ [237] @ ustr ''a de ayer? '' @ [191] @ ustr ''Ha comido y orinado con normalidad?'',
       ustr ''Hola, segundo d'' @ [237] @ ustr ''a post-operatorio. '' @ [191] @ ustr ''C'' @ [243] @ ustr ''mo va la recuperaci'' @ [243] @ ustr ''n de {pet_name}? '' @ [191] @ ustr ''Alguna molestia o sangrado?'',
       ustr ''Hola, '' @ [191] @ ustr ''c'' @ [243] @ ustr ''mo sigue {pet_name}? '' @ [191] @ ustr ''La herida se ve bien? '' @ [191] @ ustr ''Ha tenido fiebre o dejado de comer?'',
       ustr ''Hola, esta semana toca revisi'' @ [243] @ ustr ''n de puntos para {pet_name}. '' @ [191] @ ustr ''Quieres que agendemos la cita?''],
     protocol_escalation_keywords = [
       ustr ''sangre'',
       ustr ''sangrado'',
       ustr ''fiebre'',
       ustr ''no come'',
       ustr ''hinchado'',
       ustr ''pus'',
       ustr ''olor'']\<rparr>"

definition vaccination_protocol :: protocol where
  "vaccination_protocol = \<lparr>
     schedule = [24],
     messages = [
       ustr ''Hola, '' @ [191] @ ustr ''c'' @ [243] @ ustr ''mo est'' @ [225] @ ustr '' {pet_name} despu'' @ [233] @ ustr ''s de la vacuna? Es normal algo de decaimiento. Si presenta v'' @ [243] @ ustr ''mito, diarrea o hinchaz'' @ [243] @ ustr ''n en la cara, escr'' @ [237] @ ustr ''benos de inmediato.''],
     protocol_escalation_keywords = [
       ustr ''v'' @ [243] @ ustr ''mito'',
       ustr ''diarrea'',
       ustr ''hinchaz'' @ [243] @ ustr ''n'',
       ustr ''cara hinchada'',
       ustr ''no respira'']\<rparr>"

definition consultation_protocol :: protocol where
  "consultation_protocol = \<lparr>
     schedule = [48],
     messages = [
       ustr ''Hola, '' @ [191] @ ustr ''c'' @ [243] @ ustr ''mo sigue {pet_name}? '' @ [191] @ ustr ''Ha mejorado con el tratamiento?''],
     protocol_escalation_keywords = [
       ustr ''peor'',
       ustr ''empeora'',
       ustr ''no mejora'',
       ustr ''igual'']\<rparr>"

definition FOLLOW_UP_PROTOCOLS :: "(pystr \<times> protocol) list" where
  "FOLLOW_UP_PROTOCOLS =
     [(ustr ''surgery'', surgery_protocol),
      (ustr ''vaccination'', vaccination_protocol),
      (ustr ''consultation'', consultation_protocol)]"

text \<open>
  \<^verbatim>\<open>FOLLOW_UP_PROTOCOLS.get(procedure_type, FOLLOW_UP_PROTOCOLS['consultation'])\<close>.
\<close>

definition protocol_for :: "pystr \<Rightarrow> protocol" where
  "protocol_for procedure_type =
     (case map_of FOLLOW_UP_PROTOCOLS procedure_type of
        Some p \<Rightarrow> p
      | None \<Rightarrow> consultation_protocol)"

text \<open>
  The loop over \<^verbatim>\<open>enumerate(protocol['schedule'])\<close>, from index \<open>i\<close>. Reading
  \<^verbatim>\<open>protocol['messages'][i]\<close> past the end of the list raises \<^verbatim>\<open>IndexError\<close>.
\<close>

fun follow_up_loop ::
    "datetime \<Rightarrow> uuid \<Rightarrow> Appointment \<Rightarrow> protocol \<Rightarrow> nat \<Rightarrow> int list \<Rightarrow> db
      \<Rightarrow> error + (FollowUp list \<times> db)" where
  "follow_up_loop now appointment_id appointment p i [] d = Inr ([], d)"
| "follow_up_loop now appointment_id appointment p i (hours # rest) d =
     (if i < length (messages p) then
        (let (new_id, d1) = uuid4 d;
             follow_up =
               \<lparr>fu_id = new_id,
                fu_appointment_id = appointment_id,
                fu_clinic_id = apt_clinic_id appointment,
                fu_client_id = apt_client_id appointment,
                fu_pet_id = apt_pet_id appointment,
                message_template = messages p ! i,
                escalation_keywords = protocol_escalation_keywords p,
                scheduled_at = end_time appointment + timedelta_hours hours,
                fu_status = Pending,
                sequence_number = int i + 1,
                fu_created_at = now\<rparr>;
             d2 = d1\<lparr>follow_ups := follow_ups d1 @ [follow_up]\<rparr>
         in case follow_up_loop now appointment_id appointment p (Suc i) rest d2 of
              Inl e \<Rightarrow> Inl e
            | Inr (created, d') \<Rightarrow> Inr (follow_up # created, d'))
      else Inl IndexError)"

text \<open>
  \<^verbatim>\<open>schedule_follow_ups\<close>. The rows are committed after the loop, so a call that raises
  leaves the store as it was.
\<close>

definition schedule_follow_ups ::
    "datetime \<Rightarrow> db \<Rightarrow> uuid \<Rightarrow> pystr \<Rightarrow> (error + FollowUp list) \<times> db" where
  "schedule_follow_ups now d appointment_id procedure_type =
     (case get_appointment d appointment_id of
        None \<Rightarrow> (Inl NotFound, d)
      | Some appointment \<Rightarrow>
          (let p = protocol_for procedure_type
           in case follow_up_loop now appointment_id appointment p 0 (schedule p) d of
                Inl e \<Rightarrow> (Inl e, d)
              | Inr (created, d') \<Rightarrow> (Inr created, d')))"

section \<open>Conversation state machine\<close>

text \<open>The table \<^verbatim>\<open>STATE_TRANSITIONS\<close>: the destinations allowed from each state.\<close>

fun STATE_TRANSITIONS :: "conv_state \<Rightarrow> conv_state list" where
  "STATE_TRANSITIONS IDLE = [GREETING]"
| "STATE_TRANSITIONS GREETING = [INTENT_DETECTION, REMINDER]"
| "STATE_TRANSITIONS INTENT_DETECTION =
     [ASK_REASON, CONFIRM_EMERGENCY, COLLECT_STATUS, GREETING, REMINDER]"
| "STATE_TRANSITIONS ASK_REASON = [OFFER_SLOTS, CONFIRM_EMERGENCY, REMINDER]"
| "STATE_TRANSITIONS OFFER_SLOTS = [AWAIT_SELECTION, ASK_REASON, REMINDER]"
| "STATE_TRANSITIONS AWAIT_SELECTION = [CONFIRM_BOOKING, OFFER_SLOTS, REMINDER]"
| "STATE_TRANSITIONS CONFIRM_BOOKING = [COMPLETED, OFFER_SLOTS, REMINDER]"
| "STATE_TRANSITIONS CONFIRM_EMERGENCY = [ESCALATE, ASK_REASON, CLOSED]"
| "STATE_TRANSITIONS ESCALATE = [COMPLETED]"
| "STATE_TRANSITIONS COLLECT_STATUS = [COMPLETED, ESCALATE, REMINDER]"
| "STATE_TRANSITIONS COMPLETED = [CLOSED]"
| "STATE_TRANSITIONS REMINDER = [INTENT_DETECTION, CLOSED]"
| "STATE_TRANSITIONS CLOSED = [GREETING]"

text \<open>The timeout of each state in minutes, from the table of state definitions.\<close>

fun STATE_TIMEOUT :: "conv_state \<Rightarrow> int option" where
  "STATE_TIMEOUT GREETING = Some 5"
| "STATE_TIMEOUT INTENT_DETECTION = Some 10"
| "STATE_TIMEOUT ASK_REASON = Some 15"
| "STATE_TIMEOUT OFFER_SLOTS = Some 15"
| "STATE_TIMEOUT AWAIT_SELECTION = Some 15"
| "STATE_TIMEOUT CONFIRM_BOOKING = Some 10"
| "STATE_TIMEOUT CONFIRM_EMERGENCY = Some 5"
| "STATE_TIMEOUT COLLECT_STATUS = Some 1440"
| "STATE_TIMEOUT REMINDER = Some 1440"
| "STATE_TIMEOUT IDLE = None"
| "STATE_TIMEOUT ESCALATE = None"
| "STATE_TIMEOUT COMPLETED = None"
| "STATE_TIMEOUT CLOSED = None"

datatype event_kind = InboundMessage | TimeoutFired | CompletionSignal

record event =
  kind :: event_kind
  destination :: conv_state

text \<open>
  Modelled from the spec: the function \<^verbatim>\<open>transition\<close> is not in the sources, which hold
  only the two tables above. The spec gives its contract: "Only transitions present in a
  fixed adjacency table (source state to allowed destination states) are permitted; an
  attempted transition outside the table fails with InvalidTransition and the conversation
  is left unchanged", and "Every state entry sets a new timeout deadline per a per-state
  timeout table; entering ESCALATE, COMPLETED, or CLOSED clears the timeout". The result
  is what the call returns or raises, and the conversation after it.
\<close>

definition transition ::
    "datetime \<Rightarrow> Conversation \<Rightarrow> event \<Rightarrow> (error + conv_state) \<times> Conversation" where
  "transition now conversation ev =
     (if destination ev \<in> set (STATE_TRANSITIONS (state conversation))
      then (Inr (destination ev),
            conversation\<lparr>state := destination ev,
                          last_state_change := Some now,
                          timeout_at := map_option (\<lambda>m. now + timedelta_minutes m)
                                          (STATE_TIMEOUT (destination ev))\<rparr>)
      else (Inl InvalidTransition, conversation))"

section \<open>A sample store\<close>

text \<open>
  One clinic, open on Mondays from 09:00 to 12:00 and closed on Sundays; a conversation
  awaiting the confirmation of an emergency; a second conversation whose contact has one
  recorded false emergency; one appointment on Monday 1970-01-05 from 09:30 to 10:00; one
  escalation contact.
\<close>

definition sample_clinic :: Clinic where
  "sample_clinic =
     \<lparr>clinic_id = 1,
      business_hours =
        [(0, \<lparr>is_open = True, open_time = timedelta_hours 9, close_time = timedelta_hours 12\<rparr>),
         (6, \<lparr>is_open = False, open_time = timedelta_hours 9, close_time = timedelta_hours 12\<rparr>)]\<rparr>"

definition sample_conversation :: Conversation where
  "sample_conversation =
     \<lparr>conv_id = 10, conv_clinic_id = 1, client_phone = ustr ''3001'',
      state = CONFIRM_EMERGENCY, state_data = [], last_state_change = None,
      timeout_at = Some 300000000,
      extracted_client_name = None, extracted_pet_name = None,
      extracted_pet_species = Some (ustr ''gato''),
      emergency_description = ustr ''veneno ayuda'',
      emergency_keywords = [ustr ''veneno'', ustr ''ayuda''],
      conv_emergency_id = None\<rparr>"

definition sample_conversation_flagged :: Conversation where
  "sample_conversation_flagged =
     \<lparr>conv_id = 11, conv_clinic_id = 1, client_phone = ustr ''3002'',
      state = CONFIRM_EMERGENCY, state_data = [], last_state_change = None,
      timeout_at = None,
      extracted_client_name = None, extracted_pet_name = None,
      extracted_pet_species = None,
      emergency_description = ustr ''no respira'',
      emergency_keywords = [ustr ''no respira''],
      conv_emergency_id = None\<rparr>"

definition sample_client :: Client where
  "sample_client =
     \<lparr>client_id = 20, client_clinic_id = 1, phone = ustr ''3002'', client_name = None,
      false_emergency_count = 1\<rparr>"

definition sample_appointment :: Appointment where
  "sample_appointment =
     \<lparr>apt_id = 30, apt_clinic_id = 1, apt_client_id = Some 20, apt_pet_id = None,
      start_time = combine 4 (timedelta_minutes 570),
      end_time = combine 4 (timedelta_minutes 600),
      duration_minutes = 30, apt_reason = ustr ''control'', apt_status = Scheduled,
      apt_source = Manual, apt_conversation_id = None, apt_priority = PriorityNormal,
      apt_emergency_id = None, apt_created_at = 0\<rparr>"

definition sample_db :: db where
  "sample_db =
     \<lparr>conversations = [sample_conversation, sample_conversation_flagged],
      clients = [sample_client],
      pets = [],
      clinics = [sample_clinic],
      escalation_contacts = [\<lparr>contact_clinic_id = 1, contact_phone = ustr ''3100''\<rparr>],
      appointments = [sample_appointment],
      emergency_events = [],
      follow_ups = [],
      sent_alerts = [],
      action_log = [],
      next_uuid = 100\<rparr>"

definition sample_slot_a :: TimeSlot where
  "sample_slot_a =
     \<lparr>start = combine 4 (timedelta_minutes 570), end' = combine 4 (timedelta_minutes 600)\<rparr>"

definition sample_slot_b :: TimeSlot where
  "sample_slot_b =
     \<lparr>start = combine 4 (timedelta_minutes 630), end' = combine 4 (timedelta_minutes 660)\<rparr>"

text \<open>Parameters for the samples: no time pattern, and the reply text of the clinic.\<close>

definition no_time_patterns :: "((pystr \<Rightarrow> unit option) \<times> (unit \<Rightarrow> unit)) list" where
  "no_time_patterns = []"

definition never_matches :: "TimeSlot \<Rightarrow> unit \<Rightarrow> bool" where
  "never_matches slot target = False"

definition sample_client_response :: "Clinic \<Rightarrow> pystr" where
  "sample_client_response clinic = ustr ''EMERGENCIA REGISTRADA''"

section \<open>Facts about text\<close>

lemmas text_eval =
  ustr_def py_lower_def lower_cp_def py_strip_def is_space_def py_in_def sublist_code

lemmas sample_defs =
  sample_db_def sample_clinic_def sample_conversation_def sample_conversation_flagged_def
  sample_client_def sample_appointment_def

lemma py_lower_append: "py_lower (a @ b) = py_lower a @ py_lower b"
  by (simp add: py_lower_def)

lemma py_in_lower_occurrence: "py_in (py_lower occ) (py_lower (pre @ occ @ suf))"
  unfolding py_in_def py_lower_append by (rule sublist_appendI)

lemma find_in_set: "find P xs = Some x \<Longrightarrow> x \<in> set xs"
  by (induction xs) (auto split: if_splits)

section \<open>Facts about the sample store\<close>

lemma sample_conv: "get_conversation sample_db 10 = Some sample_conversation"
  by (simp add: get_conversation_def sample_defs)

lemma sample_conv_flagged: "get_conversation sample_db 11 = Some sample_conversation_flagged"
  by (simp add: get_conversation_def sample_defs)

lemma sample_clin: "get_clinic sample_db (conv_clinic_id sample_conversation) = Some sample_clinic"
  by (simp add: get_clinic_def sample_defs)

lemma sample_clin1: "get_clinic sample_db 1 = Some sample_clinic"
  by (simp add: get_clinic_def sample_defs)

lemma sample_apt: "get_appointment sample_db 30 = Some sample_appointment"
  by (simp add: get_appointment_def sample_defs)



section \<open>Emergency escalation is not idempotent (C1)\<close>

lemma foldl_send_emergency_alert_frame:
  "emergency_events (foldl (\<lambda>acc c. send_emergency_alert acc (f c) m) d cs) = emergency_events d"
  "appointments (foldl (\<lambda>acc c. send_emergency_alert acc (f c) m) d cs) = appointments d"
  by (induction cs arbitrary: d) (simp_all add: send_emergency_alert_def)

text \<open>What one run of the escalation returns and adds, when the conversation and its
  clinic exist.\<close>

lemma execute_emergency_escalation_result:
  assumes "get_conversation d conversation_id = Some conversation"
    and "get_clinic d (conv_clinic_id conversation) = Some clinic"
  shows "\<exists>d'. execute_emergency_escalation now client_response d conversation_id =
           (Inr \<lparr>action = EscalatedAction, action_emergency_id = Some (next_uuid d),
                 action_message = client_response clinic\<rparr>, d')
       \<and> emergency_events d' = emergency_events d @
             [\<lparr>ev_id = next_uuid d,
               ev_clinic_id = conv_clinic_id conversation,
               ev_conversation_id = conversation_id,
               ev_client_phone = client_phone conversation,
               description = emergency_description conversation,
               keywords_detected = emergency_keywords conversation,
               ev_status = Active,
               ev_created_at = now\<rparr>]
       \<and> appointments d' = appointments d @
             [\<lparr>apt_id = Suc (next_uuid d),
               apt_clinic_id = conv_clinic_id conversation,
               apt_client_id = None,
               apt_pet_id = None,
               start_time = now,
               end_time = now + timedelta_minutes 60,
               duration_minutes = 60,
               apt_reason = ustr ''EMERGENCIA'',
               apt_status = Emergency,
               apt_source = Whatsapp,
               apt_conversation_id = None,
               apt_priority = PriorityEmergency,
               apt_emergency_id = Some (next_uuid d),
               apt_created_at = now\<rparr>]"
  using assms
  by (simp add: execute_emergency_escalation_def Let_def uuid4_def create_emergency_slot_def
      foldl_send_emergency_alert_frame)




section \<open>Booking re-checks the slot (C2)\<close>








section \<open>Transitions outside the table (C3)\<close>

text \<open>
  C3. For every conversation and every event whose requested destination is not listed for
  the current state in \<open>STATE_TRANSITIONS\<close>, \<open>transition\<close> fails with
  \<open>InvalidTransition\<close> and returns the conversation as it was: state, working memory and
  timeout deadline included.
\<close>

theorem transition_outside_table:
  assumes "destination ev \<notin> set (STATE_TRANSITIONS (state conversation))"
  shows "transition now conversation ev = (Inl InvalidTransition, conversation)"
  using assms by (simp add: transition_def)

theorem transition_outside_table_witness:
  "destination \<lparr>kind = InboundMessage, destination = COMPLETED\<rparr>
      \<notin> set (STATE_TRANSITIONS (state sample_conversation))
   \<and> transition 7 sample_conversation \<lparr>kind = InboundMessage, destination = COMPLETED\<rparr>
      = (Inl InvalidTransition, sample_conversation)"
proof -
  have h: "destination \<lparr>kind = InboundMessage, destination = COMPLETED\<rparr>
      \<notin> set (STATE_TRANSITIONS (state sample_conversation))"
    by (simp add: sample_conversation_def)
  from transition_outside_table [OF h] h show ?thesis by blast
qed

section \<open>High-confidence emergency terms (C4)\<close>

text \<open>
  C4. Whenever a message contains an occurrence \<open>occ\<close> whose lower-cased form is one of
  the high-confidence terms, whatever text \<open>pre\<close> and \<open>suf\<close> surrounds it,
  \<open>detect_emergency\<close> reports a potential emergency of confidence \<open>high\<close> that requires
  confirmation, and the term is among the matched keywords.
\<close>

theorem detect_emergency_high_term:
  assumes "py_lower occ \<in> set EMERGENCY_KEYWORDS_high"
  shows "is_potential_emergency (detect_emergency (pre @ occ @ suf)) = True
       \<and> confidence (detect_emergency (pre @ occ @ suf)) = Some High
       \<and> requires_confirmation (detect_emergency (pre @ occ @ suf)) = True
       \<and> py_lower occ \<in> set (matched_keywords (detect_emergency (pre @ occ @ suf)))"
proof -
  let ?m = "py_lower (pre @ occ @ suf)"
  let ?hm = "filter (\<lambda>kw. py_in kw ?m) EMERGENCY_KEYWORDS_high"
  have mem: "py_lower occ \<in> set ?hm"
    unfolding set_filter using assms py_in_lower_occurrence by blast
  have ne: "?hm \<noteq> []"
  proof
    assume "?hm = []"
    with mem show False by (metis empty_iff empty_set)
  qed
  have "detect_emergency (pre @ occ @ suf) =
      \<lparr>is_potential_emergency = True, confidence = Some High,
       matched_keywords = ?hm, requires_confirmation = True\<rparr>"
    using ne by (simp add: detect_emergency_def Let_def)
  with mem show ?thesis by simp
qed

theorem detect_emergency_high_term_witness:
  "py_lower (ustr ''NO RESPIRA'') \<in> set EMERGENCY_KEYWORDS_high
   \<and> is_potential_emergency (detect_emergency (ustr ''Mi perro '' @ ustr ''NO RESPIRA'' @ ustr '' bien'')) = True
   \<and> confidence (detect_emergency (ustr ''Mi perro '' @ ustr ''NO RESPIRA'' @ ustr '' bien'')) = Some High
   \<and> requires_confirmation (detect_emergency (ustr ''Mi perro '' @ ustr ''NO RESPIRA'' @ ustr '' bien'')) = True"
proof -
  have h: "py_lower (ustr ''NO RESPIRA'') \<in> set EMERGENCY_KEYWORDS_high"
    by (simp add: py_lower_def lower_cp_def ustr_def EMERGENCY_KEYWORDS_high_def)
  from detect_emergency_high_term [OF h, of "ustr ''Mi perro ''" "ustr '' bien''"] h
  show ?thesis by blast
qed

section \<open>Contacts with a false emergency on record (C5)\<close>

lemma denied_message_redirects:
  "py_in (ustr ''llama directamente al consultorio'') denied_message"
  by (simp add: denied_message_def text_eval)

text \<open>
  C5. When the contact of the conversation has a recorded \<open>false_emergency_count\<close> of at
  least 1, \<open>handle_emergency_confirmation\<close> returns the action \<open>denied\<close>, whose message
  tells the contact to call the clinic directly, and leaves the store exactly as it was (no
  emergency event, no alert, no appointment), whatever the confirmation flag.
\<close>

theorem handle_emergency_confirmation_denied:
  assumes "get_conversation d conversation_id = Some conversation"
    and "get_client_by_phone d (client_phone conversation) = Some client"
    and "1 \<le> false_emergency_count client"
  shows "handle_emergency_confirmation now client_response d conversation_id user_confirmed =
           (Inr \<lparr>action = Denied, action_emergency_id = None, action_message = denied_message\<rparr>, d)
       \<and> py_in (ustr ''llama directamente al consultorio'') denied_message"
  using assms denied_message_redirects by (simp add: handle_emergency_confirmation_def)

theorem handle_emergency_confirmation_denied_witness:
  "get_conversation sample_db 11 = Some sample_conversation_flagged
   \<and> get_client_by_phone sample_db (client_phone sample_conversation_flagged) = Some sample_client
   \<and> 1 \<le> false_emergency_count sample_client
   \<and> handle_emergency_confirmation 0 sample_client_response sample_db 11 True =
           (Inr \<lparr>action = Denied, action_emergency_id = None, action_message = denied_message\<rparr>, sample_db)
   \<and> handle_emergency_confirmation 0 sample_client_response sample_db 11 False =
           (Inr \<lparr>action = Denied, action_emergency_id = None, action_message = denied_message\<rparr>, sample_db)"
proof -
  note a = sample_conv_flagged
  have b: "get_client_by_phone sample_db (client_phone sample_conversation_flagged) = Some sample_client"
    by (simp add: get_client_by_phone_def sample_defs)
  have c: "1 \<le> false_emergency_count sample_client" by (simp add: sample_client_def)
  from handle_emergency_confirmation_denied [OF a b c, of 0 sample_client_response True]
       handle_emergency_confirmation_denied [OF a b c, of 0 sample_client_response False] a b c
  show ?thesis by blast
qed

section \<open>Generated slots (C6, C7)\<close>






text \<open>
  C7. On a closed day, when the clinic has no hours for the weekday of the date or the
  hours are marked as not open, \<open>get_available_slots\<close> returns the empty list.
\<close>

theorem get_available_slots_closed_day:
  assumes "get_clinic d cid = Some clinic"
    and "map_of (business_hours clinic) (weekday day) = None
       \<or> (\<exists>hours. map_of (business_hours clinic) (weekday day) = Some hours \<and> \<not> is_open hours)"
  shows "get_available_slots d cid day duration = Inr []"
  using assms by (auto simp: get_available_slots_def)

theorem get_available_slots_closed_day_witness:
  "get_clinic sample_db 1 = Some sample_clinic
   \<and> (\<exists>hours. map_of (business_hours sample_clinic) (weekday 3) = Some hours \<and> \<not> is_open hours)
   \<and> get_available_slots sample_db 1 3 30 = Inr []
   \<and> map_of (business_hours sample_clinic) (weekday 5) = None
   \<and> get_available_slots sample_db 1 5 30 = Inr []"
proof -
  have s: "\<exists>hours. map_of (business_hours sample_clinic) (weekday 3) = Some hours \<and> \<not> is_open hours"
    by (simp add: sample_clinic_def weekday_def)
  have t: "map_of (business_hours sample_clinic) (weekday 5) = None"
    by (simp add: sample_clinic_def weekday_def)
  from get_available_slots_closed_day [OF sample_clin1, of 3 30] s
  have a: "get_available_slots sample_db 1 3 30 = Inr []" by blast
  from get_available_slots_closed_day [OF sample_clin1, of 5 30] t
  have b: "get_available_slots sample_db 1 5 30 = Inr []" by blast
  from sample_clin1 s a t b show ?thesis by (intro conjI)
qed

section \<open>The priority appointment of an escalation (C8)\<close>

text \<open>
  C8. An escalation for a conversation that exists (with its clinic) appends exactly one
  appointment to the table, with status \<open>emergency\<close>, priority \<open>emergency\<close> and start
  time now, linked to the new event; the appointments stored before are all still there,
  in the same order and unchanged.
\<close>

theorem execute_emergency_escalation_one_priority_appointment:
  assumes "get_conversation d conversation_id = Some conversation"
    and "get_clinic d (conv_clinic_id conversation) = Some clinic"
  shows "\<exists>act d' apt. execute_emergency_escalation now client_response d conversation_id = (Inr act, d')
       \<and> appointments d' = appointments d @ [apt]
       \<and> apt_status apt = Emergency \<and> apt_priority apt = PriorityEmergency
       \<and> start_time apt = now \<and> apt_emergency_id apt = action_emergency_id act"
proof -
  from execute_emergency_escalation_result [OF assms, of now client_response]
  obtain d' where r: "execute_emergency_escalation now client_response d conversation_id =
           (Inr \<lparr>action = EscalatedAction, action_emergency_id = Some (next_uuid d),
                 action_message = client_response clinic\<rparr>, d')"
    and ap: "appointments d' = appointments d @
             [\<lparr>apt_id = Suc (next_uuid d),
               apt_clinic_id = conv_clinic_id conversation,
               apt_client_id = None,
               apt_pet_id = None,
               start_time = now,
               end_time = now + timedelta_minutes 60,
               duration_minutes = 60,
               apt_reason = ustr ''EMERGENCIA'',
               apt_status = Emergency,
               apt_source = Whatsapp,
               apt_conversation_id = None,
               apt_priority = PriorityEmergency,
               apt_emergency_id = Some (next_uuid d),
               apt_created_at = now\<rparr>]"
    by blast
  show ?thesis
    apply (rule exI [of _ "\<lparr>action = EscalatedAction, action_emergency_id = Some (next_uuid d),
                 action_message = client_response clinic\<rparr>"])
    apply (rule exI [of _ d'])
    apply (rule exI [of _ "\<lparr>apt_id = Suc (next_uuid d),
               apt_clinic_id = conv_clinic_id conversation,
               apt_client_id = None,
               apt_pet_id = None,
               start_time = now,
               end_time = now + timedelta_minutes 60,
               duration_minutes = 60,
               apt_reason = ustr ''EMERGENCIA'',
               apt_status = Emergency,
               apt_source = Whatsapp,
               apt_conversation_id = None,
               apt_priority = PriorityEmergency,
               apt_emergency_id = Some (next_uuid d),
               apt_created_at = now\<rparr>"])
    using r ap apply simp
    done
qed

theorem execute_emergency_escalation_one_priority_appointment_witness:
  "get_conversation sample_db 10 = Some sample_conversation
   \<and> get_clinic sample_db (conv_clinic_id sample_conversation) = Some sample_clinic
   \<and> (\<exists>act d' apt. execute_emergency_escalation 0 sample_client_response sample_db 10 = (Inr act, d')
       \<and> appointments d' = appointments sample_db @ [apt]
       \<and> apt_status apt = Emergency \<and> apt_priority apt = PriorityEmergency
       \<and> start_time apt = 0)"
  using execute_emergency_escalation_one_priority_appointment
          [OF sample_conv sample_clin, of 0 sample_client_response]
    sample_conv sample_clin by blast

section \<open>Follow-ups after surgery (C9)\<close>

lemma follow_up_loop_ok:
  "i + length hs \<le> length (messages p) \<Longrightarrow>
   \<exists>created d'. follow_up_loop now appointment_id appointment p i hs d = Inr (created, d')
     \<and> map scheduled_at created = map (\<lambda>h. end_time appointment + timedelta_hours h) hs
     \<and> follow_ups d' = follow_ups d @ created"
proof (induction hs arbitrary: i d)
  case Nil
  then show ?case by simp
next
  case (Cons h hs)
  let ?fu = "\<lparr>fu_id = next_uuid d,
                fu_appointment_id = appointment_id,
                fu_clinic_id = apt_clinic_id appointment,
                fu_client_id = apt_client_id appointment,
                fu_pet_id = apt_pet_id appointment,
                message_template = messages p ! i,
                escalation_keywords = protocol_escalation_keywords p,
                scheduled_at = end_time appointment + timedelta_hours h,
                fu_status = Pending,
                sequence_number = int i + 1,
                fu_created_at = now\<rparr>"
  let ?d2 = "d\<lparr>next_uuid := Suc (next_uuid d), follow_ups := follow_ups d @ [?fu]\<rparr>"
  from Cons.prems have i: "i < length (messages p)" and rest: "Suc i + length hs \<le> length (messages p)"
    by simp_all
  from Cons.IH [OF rest, of ?d2] obtain created d' where
    r: "follow_up_loop now appointment_id appointment p (Suc i) hs ?d2 = Inr (created, d')"
    and s: "map scheduled_at created = map (\<lambda>h. end_time appointment + timedelta_hours h) hs"
    and f: "follow_ups d' = follow_ups ?d2 @ created"
    by blast
  have "follow_up_loop now appointment_id appointment p i (h # hs) d = Inr (?fu # created, d')"
    using i r by (simp add: Let_def uuid4_def)
  moreover have "map scheduled_at (?fu # created)
      = map (\<lambda>h. end_time appointment + timedelta_hours h) (h # hs)"
    using s by simp
  moreover have "follow_ups d' = follow_ups d @ (?fu # created)"
    using f by simp
  ultimately show ?case by blast
qed

lemma protocol_for_surgery: "protocol_for (ustr ''surgery'') = surgery_protocol"
  by (simp add: protocol_for_def FOLLOW_UP_PROTOCOLS_def ustr_def)

lemma protocol_for_consultation: "protocol_for (ustr ''consultation'') = consultation_protocol"
  by (simp add: protocol_for_def FOLLOW_UP_PROTOCOLS_def ustr_def)

lemma protocol_for_unknown:
  "procedure_type \<notin> {ustr ''surgery'', ustr ''vaccination'', ustr ''consultation''} \<Longrightarrow>
   protocol_for procedure_type = consultation_protocol"
  by (simp add: protocol_for_def FOLLOW_UP_PROTOCOLS_def)

text \<open>
  C9. For an appointment that exists, \<open>schedule_follow_ups\<close> with procedure type
  \<open>surgery\<close> succeeds and adds exactly 4 follow-ups to the table, scheduled 24, 48, 72 and
  168 hours after the end of the appointment, so at strictly increasing times; and a
  procedure type that is not a key of \<open>FOLLOW_UP_PROTOCOLS\<close> gets the consultation
  protocol, with the same result as the type \<open>consultation\<close>.
\<close>

theorem schedule_follow_ups_surgery:
  assumes "get_appointment d appointment_id = Some appointment"
  shows "(\<exists>created d'. schedule_follow_ups now d appointment_id (ustr ''surgery'') = (Inr created, d')
            \<and> length created = 4
            \<and> map scheduled_at created =
                 [end_time appointment + timedelta_hours 24, end_time appointment + timedelta_hours 48,
                  end_time appointment + timedelta_hours 72, end_time appointment + timedelta_hours 168]
            \<and> sorted_wrt (<) (map scheduled_at created)
            \<and> follow_ups d' = follow_ups d @ created)
       \<and> (procedure_type \<notin> {ustr ''surgery'', ustr ''vaccination'', ustr ''consultation''} \<longrightarrow>
            protocol_for procedure_type = consultation_protocol
            \<and> schedule_follow_ups now d appointment_id procedure_type
                = schedule_follow_ups now d appointment_id (ustr ''consultation''))"
proof (intro conjI impI)
  have sched: "schedule surgery_protocol = [24, 48, 72, 168]"
    and len: "length (messages surgery_protocol) = 4"
    by (simp_all add: surgery_protocol_def)
  have "0 + length (schedule surgery_protocol) \<le> length (messages surgery_protocol)"
    by (simp add: sched len)
  from follow_up_loop_ok [OF this, of now appointment_id appointment d]
  obtain created d' where
    r: "follow_up_loop now appointment_id appointment surgery_protocol 0 (schedule surgery_protocol) d
          = Inr (created, d')"
    and s: "map scheduled_at created
          = map (\<lambda>h. end_time appointment + timedelta_hours h) (schedule surgery_protocol)"
    and f: "follow_ups d' = follow_ups d @ created"
    by blast
  from s have s': "map scheduled_at created =
                 [end_time appointment + timedelta_hours 24, end_time appointment + timedelta_hours 48,
                  end_time appointment + timedelta_hours 72, end_time appointment + timedelta_hours 168]"
    by (simp add: sched)
  then have "length (map scheduled_at created) = 4" by simp
  then have l: "length created = 4" by simp
  have srt: "sorted_wrt (<) (map scheduled_at created)"
    unfolding s' by (simp add: timedelta_hours_def minute_def)
  have "schedule_follow_ups now d appointment_id (ustr ''surgery'') = (Inr created, d')"
    using assms r by (simp add: schedule_follow_ups_def protocol_for_surgery Let_def)
  with l s' srt f
  show "\<exists>created d'. schedule_follow_ups now d appointment_id (ustr ''surgery'') = (Inr created, d')
            \<and> length created = 4
            \<and> map scheduled_at created =
                 [end_time appointment + timedelta_hours 24, end_time appointment + timedelta_hours 48,
                  end_time appointment + timedelta_hours 72, end_time appointment + timedelta_hours 168]
            \<and> sorted_wrt (<) (map scheduled_at created)
            \<and> follow_ups d' = follow_ups d @ created"
    by (intro exI [of _ created] exI [of _ d'] conjI)
next
  assume u: "procedure_type \<notin> {ustr ''surgery'', ustr ''vaccination'', ustr ''consultation''}"
  then show p: "protocol_for procedure_type = consultation_protocol" by (rule protocol_for_unknown)
  have "protocol_for procedure_type = protocol_for (ustr ''consultation'')"
    by (simp only: p protocol_for_consultation)
  then show "schedule_follow_ups now d appointment_id procedure_type
                = schedule_follow_ups now d appointment_id (ustr ''consultation'')"
    unfolding schedule_follow_ups_def by (simp only:)
qed

theorem schedule_follow_ups_surgery_witness:
  "get_appointment sample_db 30 = Some sample_appointment
   \<and> (\<exists>created d'. schedule_follow_ups 0 sample_db 30 (ustr ''surgery'') = (Inr created, d')
            \<and> length created = 4
            \<and> map scheduled_at created =
                 [end_time sample_appointment + timedelta_hours 24,
                  end_time sample_appointment + timedelta_hours 48,
                  end_time sample_appointment + timedelta_hours 72,
                  end_time sample_appointment + timedelta_hours 168]
            \<and> follow_ups d' = follow_ups sample_db @ created)
   \<and> ustr ''dental'' \<notin> {ustr ''surgery'', ustr ''vaccination'', ustr ''consultation''}
   \<and> schedule_follow_ups 0 sample_db 30 (ustr ''dental'')
        = schedule_follow_ups 0 sample_db 30 (ustr ''consultation'')"
proof -
  have u: "ustr ''dental'' \<notin> {ustr ''surgery'', ustr ''vaccination'', ustr ''consultation''}"
    by (simp add: ustr_def)
  note t = schedule_follow_ups_surgery [OF sample_apt, of 0 "ustr ''dental''"]
  from t [THEN conjunct1] obtain created d' where
    c: "schedule_follow_ups 0 sample_db 30 (ustr ''surgery'') = (Inr created, d')"
       "length created = 4"
       "map scheduled_at created =
                 [end_time sample_appointment + timedelta_hours 24,
                  end_time sample_appointment + timedelta_hours 48,
                  end_time sample_appointment + timedelta_hours 72,
                  end_time sample_appointment + timedelta_hours 168]"
       "follow_ups d' = follow_ups sample_db @ created"
    by auto
  from t [THEN conjunct2] u have
    e: "schedule_follow_ups 0 sample_db 30 (ustr ''dental'')
        = schedule_follow_ups 0 sample_db 30 (ustr ''consultation'')"
    by simp
  from c have "\<exists>created d'. schedule_follow_ups 0 sample_db 30 (ustr ''surgery'') = (Inr created, d')
            \<and> length created = 4
            \<and> map scheduled_at created =
                 [end_time sample_appointment + timedelta_hours 24,
                  end_time sample_appointment + timedelta_hours 48,
                  end_time sample_appointment + timedelta_hours 72,
                  end_time sample_appointment + timedelta_hours 168]
            \<and> follow_ups d' = follow_ups sample_db @ created"
    by (intro exI [of _ created] exI [of _ d'] conjI)
  with sample_apt u e show ?thesis by (intro conjI)
qed

section \<open>Slot selection stays within the offer (C10)\<close>

lemma number_selection_offered:
  "number_selection rows message offered_slots = Some slot \<Longrightarrow> slot \<in> set offered_slots"
  by (induction rows message offered_slots rule: number_selection.induct)
     (auto split: if_splits)

lemma time_selection_offered:
  "time_selection rows slot_matches message offered_slots = Some slot \<Longrightarrow> slot \<in> set offered_slots"
  by (induction rows slot_matches message offered_slots rule: time_selection.induct)
     (auto split: option.splits dest: find_in_set)

text \<open>
  C10. Whatever the text, the offered slots, the time patterns and the matching test,
  \<open>parse_slot_selection\<close> returns nothing or one of the offered slots; an ordinal beyond
  the end of the offer selects nothing by itself.
\<close>

theorem parse_slot_selection_offered:
  "parse_slot_selection time_patterns slot_matches user_message offered_slots = None
   \<or> (\<exists>slot. parse_slot_selection time_patterns slot_matches user_message offered_slots = Some slot
         \<and> slot \<in> set offered_slots)"
proof (cases "parse_slot_selection time_patterns slot_matches user_message offered_slots")
  case None
  then show ?thesis by simp
next
  case (Some slot)
  then have "slot \<in> set offered_slots"
    by (auto simp: parse_slot_selection_def Let_def split: option.splits
        dest: number_selection_offered time_selection_offered)
  with Some show ?thesis by simp
qed

theorem parse_slot_selection_offered_witness:
  "parse_slot_selection no_time_patterns never_matches (ustr ''tercera'') [sample_slot_a, sample_slot_b] = None
   \<and> parse_slot_selection no_time_patterns never_matches (ustr '' La SEGUNDA '') [sample_slot_a, sample_slot_b]
       = Some sample_slot_b
   \<and> sample_slot_b \<in> set [sample_slot_a, sample_slot_b]"
proof -
  have a: "parse_slot_selection no_time_patterns never_matches (ustr ''tercera'') [sample_slot_a, sample_slot_b] = None"
    by (simp add: parse_slot_selection_def no_time_patterns_def number_patterns_def text_eval)
  have b: "parse_slot_selection no_time_patterns never_matches (ustr '' La SEGUNDA '') [sample_slot_a, sample_slot_b]
       = Some sample_slot_b"
    by (simp add: parse_slot_selection_def no_time_patterns_def number_patterns_def text_eval)
  from parse_slot_selection_offered [of no_time_patterns never_matches "ustr '' La SEGUNDA ''" "[sample_slot_a, sample_slot_b]"] a b
  show ?thesis by simp
qed

end
